theory Spec2Isabelle
  imports Main "HOL-Library.Sublist"
begin

section \<open>Strings and numbers of the host language\<close>

text \<open>
  A string is a list of code units; only the code units below 256 are represented.
  \<open>String.prototype.includes\<close> is the contiguous-sublist test \<^const>\<open>sublist\<close>.
\<close>

definition str_includes :: "string \<Rightarrow> string \<Rightarrow> bool" where
  "str_includes hay needle = sublist needle hay"

text \<open>
  White space as \<open>trim\<close>, \<open>parseInt\<close> and the regular-expression class \<open>\s\<close> see it:
  TAB, LF, VT, FF, CR, SPACE and NO-BREAK SPACE are the ones below 256.
\<close>

definition is_ws :: "char \<Rightarrow> bool" where
  "is_ws c = (of_char c \<in> {9, 10, 11, 12, 13, 32, 160 :: nat})"

definition trim :: "string \<Rightarrow> string" where
  "trim s = rev (dropWhile is_ws (rev (dropWhile is_ws s)))"

definition is_digit :: "char \<Rightarrow> bool" where
  "is_digit c = (48 \<le> (of_char c :: nat) \<and> (of_char c :: nat) \<le> 57)"

definition is_upper :: "char \<Rightarrow> bool" where
  "is_upper c = (65 \<le> (of_char c :: nat) \<and> (of_char c :: nat) \<le> 90)"

definition digit_val :: "char \<Rightarrow> nat" where
  "digit_val c = of_char c - 48"

definition digit_char :: "nat \<Rightarrow> char" where
  "digit_char d = ''0123456789'' ! d"

text \<open>Decimal rendering of a natural number, most significant digit first.\<close>

fun digits :: "nat \<Rightarrow> string" where
  "digits n = (if n < 10 then [digit_char n] else digits (n div 10) @ [digit_char (n mod 10)])"

declare digits.simps [simp del]

text \<open>
  \<open>Number.prototype.toString\<close> on an integer-valued number (every value of \<open>Date.now()\<close>
  is one, and small enough to be printed without an exponent).
\<close>

definition toString :: "int \<Rightarrow> string" where
  "toString n = (if n < 0 then CHR ''-'' # digits (nat (- n)) else digits (nat n))"

text \<open>The value of a string of decimal digits.\<close>

definition digits_value :: "string \<Rightarrow> nat" where
  "digits_value ds = foldl (\<lambda>acc c. 10 * acc + digit_val c) 0 ds"

text \<open>
  \<open>parseInt(s, 10)\<close>: leading white space is skipped, one sign is read, then the longest
  run of decimal digits; whatever follows is ignored. No digit at all gives NaN, which is
  \<open>None\<close> here.
\<close>

definition parseInt10 :: "string \<Rightarrow> int option" where
  "parseInt10 s =
     (let t = dropWhile is_ws s;
          neg = (t \<noteq> [] \<and> hd t = CHR ''-'');
          u = (if t \<noteq> [] \<and> (hd t = CHR ''+'' \<or> hd t = CHR ''-'') then tl t else t);
          z = takeWhile is_digit u
      in if z = [] then None
         else Some ((if neg then - 1 else 1) * int (digits_value z)))"

section \<open>JSON values and the local storage\<close>

text \<open>
  Numbers inside payloads are never inspected by the data layer apart from their
  truthiness, so they are kept as integers. An object is its list of fields in
  insertion order.
\<close>

datatype json =
    JNull
  | JBool bool
  | JNum int
  | JStr string
  | JArray "json list"
  | JObject "(string \<times> json) list"

fun truthy :: "json \<Rightarrow> bool" where
  "truthy JNull = False"
| "truthy (JBool b) = b"
| "truthy (JNum n) = (n \<noteq> 0)"
| "truthy (JStr s) = (s \<noteq> [])"
| "truthy (JArray xs) = True"
| "truthy (JObject fs) = True"

text \<open>Assigning a field: an existing field keeps its place, a new one goes last.\<close>

fun set_field :: "string \<Rightarrow> json \<Rightarrow> (string \<times> json) list \<Rightarrow> (string \<times> json) list" where
  "set_field k v [] = [(k, v)]"
| "set_field k v ((k', v') # fs) =
     (if k' = k then (k, v) # fs else (k', v') # set_field k v fs)"

text \<open>
  The own enumerable properties that an object spread \<open>{...data}\<close> copies: the fields of
  an object, the indexed elements of an array or of a string, nothing for the rest.
\<close>

fun spread :: "json \<Rightarrow> (string \<times> json) list" where
  "spread (JObject fs) = fs"
| "spread (JArray xs) = map (\<lambda>i. (digits i, xs ! i)) [0..<length xs]"
| "spread (JStr s) = map (\<lambda>i. (digits i, JStr [s ! i])) [0..<length s]"
| "spread _ = []"

text \<open>
  The browser's \<open>localStorage\<close>. An item is represented by the JSON value that its text
  denotes: \<open>JSON.stringify\<close> followed by \<open>JSON.parse\<close> is the identity on these values,
  and the text of a JSON value is never the empty string, so the test \<open>data ? ... : ...\<close>
  on an item's text is the test that the item is present.
\<close>

type_synonym storage = "string \<rightharpoonup> json"

definition STORAGE_KEYS_VEHICLES :: string where "STORAGE_KEYS_VEHICLES = ''matatu_vehicles''"
definition STORAGE_KEYS_TICKETS :: string where "STORAGE_KEYS_TICKETS = ''matatu_tickets''"
definition STORAGE_KEYS_PARCELS :: string where "STORAGE_KEYS_PARCELS = ''matatu_parcels''"
definition STORAGE_KEYS_RECEIPTS :: string where "STORAGE_KEYS_RECEIPTS = ''matatu_receipts''"
definition STORAGE_KEYS_REPORTS :: string where "STORAGE_KEYS_REPORTS = ''matatu_reports''"

definition getStorageKey :: "string \<Rightarrow> string option" where
  "getStorageKey endpoint =
     (if endpoint = ''/vehicles'' then Some STORAGE_KEYS_VEHICLES
      else if endpoint = ''/tickets'' then Some STORAGE_KEYS_TICKETS
      else if endpoint = ''/parcels'' then Some STORAGE_KEYS_PARCELS
      else if endpoint = ''/receipts'' then Some STORAGE_KEYS_RECEIPTS
      else if endpoint = ''/reports'' then Some STORAGE_KEYS_REPORTS
      else None)"

definition getLocalData :: "string \<Rightarrow> storage \<Rightarrow> json" where
  "getLocalData key ls = (case ls key of Some v \<Rightarrow> v | None \<Rightarrow> JArray [])"

datatype exn_kind = TypeError

text \<open>
  \<open>existing.push(data)\<close> throws a TypeError when the stored value is not an array (no
  JSON value other than an array has a callable \<open>push\<close>).
\<close>

definition saveToLocalStorage :: "string \<Rightarrow> json \<Rightarrow> storage \<Rightarrow> exn_kind + storage" where
  "saveToLocalStorage endpoint data ls =
     (case getStorageKey endpoint of
        Some key \<Rightarrow>
          (let got = getLocalData key ls;
               existing = (if truthy got then got else JArray [])
           in case existing of
                JArray xs \<Rightarrow> Inr (ls(key \<mapsto> JArray (xs @ [data])))
              | _ \<Rightarrow> Inl TypeError)
      | None \<Rightarrow> Inr ls)"

text \<open>The result \<open>null\<close> is \<^const>\<open>JNull\<close>.\<close>

definition getFromLocalStorage :: "string \<Rightarrow> storage \<Rightarrow> json" where
  "getFromLocalStorage endpoint ls =
     (case getStorageKey endpoint of
        Some key \<Rightarrow> (case ls key of Some v \<Rightarrow> v | None \<Rightarrow> JNull)
      | None \<Rightarrow> JNull)"

definition syncWithLocalStorage :: "string \<Rightarrow> json \<Rightarrow> storage \<Rightarrow> storage" where
  "syncWithLocalStorage endpoint data ls =
     (case getStorageKey endpoint of
        Some key \<Rightarrow> ls(key := None)
      | None \<Rightarrow> ls)"

section \<open>Notifications\<close>

text \<open>
  What a call leaves behind for an observer: a line on the developer console
  (\<open>console.warn\<close>, \<open>console.error\<close>) or a toast appended to the page by
  \<open>NotificationManager.show\<close>.
\<close>

datatype toast_type = Success | Error | Info | Warning

record AxiosResponse =
  status :: int

record AxiosError =
  code :: "string option"
  response :: "AxiosResponse option"
  message :: string

datatype event =
    ConsoleWarn string
  | ConsoleError string AxiosError
  | Toast toast_type string

text \<open>
  \<open>NotificationManager.show\<close>: without a toast container (\<open>init\<close> not run, or the page
  has no such element) nothing is shown and a console warning is written instead.
\<close>

definition NotificationManager_show :: "bool \<Rightarrow> toast_type \<Rightarrow> string \<Rightarrow> event list" where
  "NotificationManager_show container ty msg =
     (if \<not> container then [ConsoleWarn ''NotificationManager not initialized'']
      else [Toast ty msg])"

definition is_toast :: "event \<Rightarrow> bool" where
  "is_toast e = (case e of Toast _ _ \<Rightarrow> True | _ \<Rightarrow> False)"

definition is_console_warn :: "event \<Rightarrow> bool" where
  "is_console_warn e = (case e of ConsoleWarn _ \<Rightarrow> True | _ \<Rightarrow> False)"

text \<open>The notifications a user sees on the page, and the warning-level console lines.\<close>

definition toasts :: "event list \<Rightarrow> event list" where
  "toasts evs = filter is_toast evs"

definition warnings :: "event list \<Rightarrow> event list" where
  "warnings evs = filter is_console_warn evs"

section \<open>The data-access layer\<close>

datatype exn = Axios AxiosError | Thrown exn_kind

text \<open>The test both \<open>catch\<close> blocks make before falling back to the local storage.\<close>

definition connection_error :: "AxiosError \<Rightarrow> bool" where
  "connection_error err =
     (code err = Some ''ECONNABORTED''
      \<or> (case response err of Some r \<Rightarrow> status r = 0 | None \<Rightarrow> False)
      \<or> str_includes (message err) ''ECONNREFUSED'')"

definition handleError_message :: "AxiosError \<Rightarrow> string" where
  "handleError_message err =
     (case response err of
        Some r \<Rightarrow>
          (if status r = 500 then ''Server error. Please try again later.''
           else if status r = 404 then ''Resource not found.''
           else if code err = Some ''ECONNABORTED''
             then ''Request timed out. Please check your connection.''
           else ''An unexpected error occurred'')
      | None \<Rightarrow>
          (if str_includes (message err) ''ECONNREFUSED''
             then ''Backend unavailable. Using local data.''
           else ''An unexpected error occurred''))"

definition handleError :: "bool \<Rightarrow> AxiosError \<Rightarrow> event list" where
  "handleError container err =
     ConsoleError ''API Error:'' err
       # NotificationManager_show container Error (handleError_message err)"

text \<open>
  The outcome of the HTTP request is an input: \<open>Inr\<close> the \<open>response.data\<close> of a fulfilled
  request, \<open>Inl\<close> the error of a rejected one. \<open>get\<close> returns its result (\<open>Inl\<close> what it
  throws) and the events it produced; it never writes to the storage.
\<close>

definition get ::
  "bool \<Rightarrow> storage \<Rightarrow> string \<Rightarrow> AxiosError + json \<Rightarrow> (exn + json) \<times> event list" where
  "get container ls endpoint net =
     (case net of
        Inr response_data \<Rightarrow> (Inr response_data, [])
      | Inl err \<Rightarrow>
          (let fallback =
                 (if connection_error err then
                    (let data = getFromLocalStorage endpoint ls
                     in if truthy data then Some data else None)
                  else None)
           in case fallback of
                Some data \<Rightarrow>
                  (Inr data,
                   [ConsoleWarn (''Using local storage data for '' @ endpoint
                                   @ '' due to connection error'')])
              | None \<Rightarrow> (Inl (Axios err), handleError container err)))"

text \<open>The identifier field of the mock response, chosen by substring tests in this order.\<close>

definition mock_key :: "string \<Rightarrow> string" where
  "mock_key endpoint =
     (if str_includes endpoint ''vehicles'' then ''vehicle_id''
      else if str_includes endpoint ''tickets'' then ''ticket_id''
      else if str_includes endpoint ''parcels'' then ''parcel_id''
      else [])"

text \<open>
  \<open>post\<close> also takes the reading \<open>now\<close> of \<open>Date.now()\<close> and returns the storage it leaves.
  An exception of \<open>saveToLocalStorage\<close> leaves the \<open>catch\<close> block at once.
\<close>

definition post ::
  "bool \<Rightarrow> int \<Rightarrow> storage \<Rightarrow> string \<Rightarrow> json \<Rightarrow> AxiosError + json
     \<Rightarrow> (exn + json) \<times> storage \<times> event list" where
  "post container now ls endpoint data net =
     (case net of
        Inr response_data \<Rightarrow>
          (Inr response_data, syncWithLocalStorage endpoint response_data ls, [])
      | Inl err \<Rightarrow>
          (if connection_error err then
             (let mockId = toString now;
                  mockData = JObject (set_field ''id'' (JStr mockId) (spread data))
              in case saveToLocalStorage endpoint mockData ls of
                   Inl e \<Rightarrow> (Inl (Thrown e), ls, [])
                 | Inr ls' \<Rightarrow>
                     (Inr (JObject [(mock_key endpoint, JStr mockId)]), ls',
                      [ConsoleWarn (''Stored '' @ endpoint
                                      @ '' locally due to connection error: '' @ mockId)]))
           else (Inl (Axios err), ls, handleError container err)))"

section \<open>Form validation\<close>

text \<open>
  \<open>PHONE_PATTERN = /^(\+254|0)[17]\d{8}$/\<close>: the two alternatives start with different
  characters, so the prefix read decides the rest.
\<close>

definition PHONE_PATTERN_test :: "string \<Rightarrow> bool" where
  "PHONE_PATTERN_test s =
     (let rest = (if take 4 s = ''+254'' then Some (drop 4 s)
                  else if take 1 s = ''0'' then Some (drop 1 s)
                  else None)
      in case rest of
           None \<Rightarrow> False
         | Some r \<Rightarrow>
             length r = 9 \<and> (hd r = CHR ''1'' \<or> hd r = CHR ''7'') \<and> list_all is_digit (tl r))"

text \<open>\<open>PLATE_PATTERN = /^[A-Z]{3}\s[0-9]{3}[A-Z]$/\<close>.\<close>

definition PLATE_PATTERN_test :: "string \<Rightarrow> bool" where
  "PLATE_PATTERN_test s =
     (length s = 8 \<and> list_all is_upper (take 3 s) \<and> is_ws (s ! 3)
      \<and> list_all is_digit (take 3 (drop 4 s)) \<and> is_upper (s ! 7))"

text \<open>
  A form is the map from field names to the submitted strings; \<open>formData.get\<close> of a
  missing field is \<open>null\<close>. The test \<open>!x?.trim()\<close> holds for \<open>null\<close> and for a string
  that is empty once trimmed.
\<close>

type_synonym FormData = "string \<rightharpoonup> string"

definition blank :: "string option \<Rightarrow> bool" where
  "blank x = (case x of None \<Rightarrow> True | Some s \<Rightarrow> trim s = [])"

text \<open>\<open>if (...) errors.k = msg\<close>, the message being \<open>None\<close> when the condition fails.\<close>

definition put_error :: "string \<Rightarrow> string option \<Rightarrow> (string \<rightharpoonup> string) \<Rightarrow> (string \<rightharpoonup> string)" where
  "put_error k msg errors = (case msg of None \<Rightarrow> errors | Some m \<Rightarrow> errors(k \<mapsto> m))"

definition required :: "string option \<Rightarrow> string \<Rightarrow> string option" where
  "required x msg = (if blank x then Some msg else None)"

text \<open>The phone check shared by the ticket and parcel forms, with its two messages.\<close>

definition phone_error :: "string option \<Rightarrow> string \<Rightarrow> string \<Rightarrow> string option" where
  "phone_error phone msg_required msg_format =
     (case phone of
        None \<Rightarrow> Some msg_required
      | Some p \<Rightarrow>
          if trim p = [] then Some msg_required
          else if \<not> PHONE_PATTERN_test (trim p) then Some msg_format
          else None)"

record FormValidation =
  isValid :: bool
  errors :: "string \<rightharpoonup> string"

definition capacity_error :: "string option \<Rightarrow> string option" where
  "capacity_error capacity =
     (case capacity of
        None \<Rightarrow> Some ''Capacity is required''
      | Some c \<Rightarrow>
          if trim c = [] then Some ''Capacity is required''
          else (case parseInt10 c of
                  None \<Rightarrow> Some ''Capacity must be between 1 and 100''
                | Some capacityNum \<Rightarrow>
                    if capacityNum < 1 \<or> capacityNum > 100
                      then Some ''Capacity must be between 1 and 100''
                    else None))"

definition plate_error :: "string option \<Rightarrow> string option" where
  "plate_error numberPlate =
     (case numberPlate of
        None \<Rightarrow> Some ''Number plate is required''
      | Some p \<Rightarrow>
          if trim p = [] then Some ''Number plate is required''
          else if \<not> PLATE_PATTERN_test (trim p)
            then Some ''Invalid number plate format (e.g., KCA 123A)''
          else None)"

definition validateVehicleForm :: "FormData \<Rightarrow> FormValidation" where
  "validateVehicleForm formData =
     (let es = Map.empty;
          es = put_error ''vehicleName''
                 (required (formData ''vehicleName'') ''Vehicle name is required'') es;
          es = put_error ''numberPlate'' (plate_error (formData ''numberPlate'')) es;
          es = put_error ''capacity'' (capacity_error (formData ''capacity'')) es;
          es = put_error ''route'' (required (formData ''route'') ''Route is required'') es
      in \<lparr>isValid = (es = Map.empty), errors = es\<rparr>)"

text \<open>
  The amount and charge checks parse a floating-point number; the test
  \<open>isNaN(parseFloat(s)) || parseFloat(s) < 0\<close> is the parameter \<open>bad_float\<close>.
\<close>

definition float_error :: "(string \<Rightarrow> bool) \<Rightarrow> string option \<Rightarrow> string \<Rightarrow> string \<Rightarrow> string option" where
  "float_error bad_float x msg_required msg_range =
     (case x of
        None \<Rightarrow> Some msg_required
      | Some a \<Rightarrow>
          if trim a = [] then Some msg_required
          else if bad_float a then Some msg_range
          else None)"

definition seat_error :: "string option \<Rightarrow> string option" where
  "seat_error seatNumber =
     (case seatNumber of
        None \<Rightarrow> Some ''Seat number is required''
      | Some s \<Rightarrow>
          if trim s = [] then Some ''Seat number is required''
          else (case parseInt10 s of
                  None \<Rightarrow> Some ''Seat number must be a positive integer''
                | Some seatNum \<Rightarrow>
                    if seatNum < 1 then Some ''Seat number must be a positive integer''
                    else None))"

definition validateTicketForm :: "(string \<Rightarrow> bool) \<Rightarrow> FormData \<Rightarrow> FormValidation" where
  "validateTicketForm bad_float formData =
     (let es = Map.empty;
          es = put_error ''ticketVehicleId''
                 (if formData ''ticketVehicleId'' = None \<or> formData ''ticketVehicleId'' = Some []
                    then Some ''Please select a vehicle'' else None) es;
          es = put_error ''customerName''
                 (required (formData ''customerName'') ''Customer name is required'') es;
          es = put_error ''phoneNumber''
                 (phone_error (formData ''phoneNumber'')
                    ''Phone number is required'' ''Invalid phone number format'') es;
          es = put_error ''ticketRoute''
                 (required (formData ''ticketRoute'') ''Route is required'') es;
          es = put_error ''ticketAmount''
                 (float_error bad_float (formData ''ticketAmount'')
                    ''Amount is required'' ''Amount must be a positive number'') es;
          es = put_error ''seatNumber'' (seat_error (formData ''seatNumber'')) es;
          es = put_error ''cashier''
                 (required (formData ''cashier'') ''Cashier name is required'') es
      in \<lparr>isValid = (es = Map.empty), errors = es\<rparr>)"

definition validateParcelForm :: "(string \<Rightarrow> bool) \<Rightarrow> FormData \<Rightarrow> FormValidation" where
  "validateParcelForm bad_float formData =
     (let es = Map.empty;
          es = put_error ''parcelDescription''
                 (required (formData ''parcelDescription'') ''Description is required'') es;
          es = put_error ''origin'' (required (formData ''origin'') ''Origin is required'') es;
          es = put_error ''destination''
                 (required (formData ''destination'') ''Destination is required'') es;
          es = put_error ''charge''
                 (float_error bad_float (formData ''charge'')
                    ''Charge is required'' ''Charge must be a positive number'') es;
          es = put_error ''senderName''
                 (required (formData ''senderName'') ''Sender name is required'') es;
          es = put_error ''senderPhone''
                 (phone_error (formData ''senderPhone'')
                    ''Sender phone is required'' ''Invalid sender phone format'') es;
          es = put_error ''receiverName''
                 (required (formData ''receiverName'') ''Receiver name is required'') es;
          es = put_error ''receiverPhone''
                 (phone_error (formData ''receiverPhone'')
                    ''Receiver phone is required'' ''Invalid receiver phone format'') es
      in \<lparr>isValid = (es = Map.empty), errors = es\<rparr>)"

text \<open>
  The pattern in the words of its description: \<open>+254\<close> or a leading \<open>0\<close>, then \<open>1\<close> or
  \<open>7\<close>, then eight digits, and nothing else.
\<close>

definition phone_language :: "string set" where
  "phone_language =
     {p @ [d] @ r | p d r.
        (p = ''+254'' \<or> p = ''0'') \<and> (d = CHR ''1'' \<or> d = CHR ''7'')
        \<and> length r = 8 \<and> (\<forall>c \<in> set r. is_digit c)}"

text \<open>
  The verdict on a phone field in those words: \<open>required\<close> for a missing field or one
  that is empty once trimmed, nothing for a trimmed value in the language, \<open>format\<close> for
  any other.
\<close>

definition phone_verdict :: "string option \<Rightarrow> string \<Rightarrow> string \<Rightarrow> string option" where
  "phone_verdict phone msg_required msg_format =
     (case phone of
        None \<Rightarrow> Some msg_required
      | Some p \<Rightarrow>
          if trim p = [] then Some msg_required
          else if trim p \<in> phone_language then None
          else Some msg_format)"

text \<open>
  A storage as this program leaves it: every collection it has written is an array.
\<close>

definition storage_ok :: "storage \<Rightarrow> bool" where
  "storage_ok ls = (\<forall>k v. ls k = Some v \<longrightarrow> (\<exists>xs. v = JArray xs))"

text \<open>The records of a collection, none when it was never written.\<close>

definition entries :: "string \<Rightarrow> storage \<Rightarrow> json list" where
  "entries key ls = (case ls key of Some (JArray xs) \<Rightarrow> xs | _ \<Rightarrow> [])"

text \<open>Errors as the HTTP client reports them: a timeout, a refused connection, a status.\<close>

definition timeout_error :: AxiosError where
  "timeout_error =
     \<lparr>code = Some ''ECONNABORTED'', response = None, message = ''timeout of 5000ms exceeded''\<rparr>"

definition refused_error :: AxiosError where
  "refused_error =
     \<lparr>code = Some ''ERR_NETWORK'', response = None, message = ''connect ECONNREFUSED''\<rparr>"

definition status_error :: "int \<Rightarrow> AxiosError" where
  "status_error st =
     \<lparr>code = Some ''ERR_BAD_RESPONSE'', response = Some \<lparr>status = st\<rparr>,
      message = ''Request failed''\<rparr>"

text \<open>A storage holding two vehicles, and a ticket as the ticket form submits it.\<close>

definition two_vehicles :: json where
  "two_vehicles =
     JArray [JObject [(''id'', JStr ''v1''), (''name'', JStr ''Express'')],
             JObject [(''id'', JStr ''v2''), (''name'', JStr ''Shuttle'')]]"

definition vehicles_cache :: storage where
  "vehicles_cache = [STORAGE_KEYS_VEHICLES \<mapsto> two_vehicles]"

definition ticket_payload :: json where
  "ticket_payload =
     JObject [(''vehicle_id'', JStr ''v1''), (''amount'', JNum 50), (''seat_number'', JNum 4)]"

section \<open>Decimal rendering and parsing\<close>

lemma below_ten:
  "(d::nat) < 10 \<Longrightarrow>
     d = 0 \<or> d = 1 \<or> d = 2 \<or> d = 3 \<or> d = 4 \<or> d = 5 \<or> d = 6 \<or> d = 7 \<or> d = 8 \<or> d = 9"
  by presburger

lemma digit_char_cases:
  assumes "d < 10"
  shows "is_digit (digit_char d) \<and> digit_val (digit_char d) = d"
  using below_ten [OF assms]
  by (elim disjE) (simp_all add: digit_char_def is_digit_def digit_val_def)

lemma digits_all_digits: "list_all is_digit (digits n)"
proof (induction n rule: digits.induct)
  case (1 n)
  show ?case
  proof (cases "n < 10")
    case True
    then show ?thesis
      by (simp add: digits.simps [of n] digit_char_cases)
  next
    case False
    with 1 show ?thesis
      by (simp add: digits.simps [of n] digit_char_cases)
  qed
qed

lemma digits_nonempty: "digits n \<noteq> []"
  by (simp add: digits.simps [of n])

lemma digits_value_snoc: "digits_value (ds @ [c]) = 10 * digits_value ds + digit_val c"
  by (simp add: digits_value_def)

lemma digits_value_digits: "digits_value (digits n) = n"
proof (induction n rule: digits.induct)
  case (1 n)
  show ?case
  proof (cases "n < 10")
    case True
    then show ?thesis
      by (simp add: digits.simps [of n] digits_value_def digit_char_cases)
  next
    case False
    with 1 have "digits_value (digits (n div 10)) = n div 10" by simp
    with False show ?thesis
      by (simp add: digits.simps [of n] digits_value_snoc digit_char_cases)
  qed
qed

lemma digits_inj: "digits a = digits b \<Longrightarrow> a = b"
  by (metis digits_value_digits)

lemma hd_digits_is_digit: "is_digit (hd (digits n))"
  using digits_all_digits [of n] digits_nonempty [of n]
  by (cases "digits n") simp_all

lemma sign_not_digit: "\<not> is_digit CHR ''-''" "\<not> is_digit CHR ''+''" "\<not> is_ws CHR ''-''"
  by (simp_all add: is_digit_def is_ws_def)

lemma digit_not_ws: "is_digit c \<Longrightarrow> \<not> is_ws c"
  by (auto simp: is_digit_def is_ws_def)

lemma toString_inj: "toString a = toString b \<longleftrightarrow> a = b"
proof
  assume eq: "toString a = toString b"
  have nd: "\<And>m. hd (digits m) \<noteq> CHR ''-''"
    using hd_digits_is_digit sign_not_digit(1) by metis
  show "a = b"
  proof (cases "a < 0")
    case an: True
    show ?thesis
    proof (cases "b < 0")
      case True
      with an eq have "digits (nat (- a)) = digits (nat (- b))"
        by (simp add: toString_def)
      then have "nat (- a) = nat (- b)" by (rule digits_inj)
      with an True show ?thesis by simp
    next
      case False
      with an eq have "CHR ''-'' # digits (nat (- a)) = digits (nat b)"
        by (simp add: toString_def)
      then have "hd (digits (nat b)) = CHR ''-''" by (metis list.sel(1))
      with nd show ?thesis by blast
    qed
  next
    case ap: False
    show ?thesis
    proof (cases "b < 0")
      case True
      with ap eq have "digits (nat a) = CHR ''-'' # digits (nat (- b))"
        by (simp add: toString_def)
      then have "hd (digits (nat a)) = CHR ''-''" by (metis list.sel(1))
      with nd show ?thesis by blast
    next
      case False
      with ap eq have "digits (nat a) = digits (nat b)"
        by (simp add: toString_def)
      then have "nat a = nat b" by (rule digits_inj)
      with ap False show ?thesis by simp
    qed
  qed
qed simp

lemma takeWhile_digits_append:
  assumes "rest = [] \<or> \<not> is_digit (hd rest)"
  shows "takeWhile is_digit (digits m @ rest) = digits m"
proof -
  have a: "\<forall>c \<in> set (digits m). is_digit c"
    using digits_all_digits [of m] by (simp add: list_all_iff)
  have "takeWhile is_digit rest = []"
    using assms by (cases rest) auto
  with a show ?thesis by simp
qed

lemma parseInt10_toString:
  assumes "rest = [] \<or> \<not> is_digit (hd rest)"
  shows "parseInt10 (toString n @ rest) = Some n"
proof (cases "n < 0")
  case True
  have "parseInt10 (CHR ''-'' # digits (nat (- n)) @ rest) = Some n"
    using True takeWhile_digits_append [OF assms, of "nat (- n)"] digits_nonempty [of "nat (- n)"]
    by (simp add: parseInt10_def sign_not_digit digits_value_digits)
  with True show ?thesis by (simp add: toString_def)
next
  case False
  obtain c cs where d: "digits (nat n) = c # cs"
    using digits_nonempty [of "nat n"] by (cases "digits (nat n)") auto
  have c: "is_digit c" using hd_digits_is_digit [of "nat n"] d by simp
  then have nws: "\<not> is_ws c" and ns: "c \<noteq> CHR ''+''" "c \<noteq> CHR ''-''"
    using digit_not_ws sign_not_digit by auto
  have tw: "takeWhile is_digit (c # cs @ rest) = c # cs"
    using takeWhile_digits_append [OF assms, of "nat n"] d by simp
  have "parseInt10 (c # cs @ rest) = Some (int (digits_value (c # cs)))"
    unfolding parseInt10_def using nws ns tw by (simp add: Let_def)
  with False d digits_value_digits [of "nat n"] show ?thesis
    by (simp add: toString_def)
qed

section \<open>The local storage\<close>

lemma storage_ok_empty: "storage_ok Map.empty"
  by (simp add: storage_ok_def)

lemma storage_ok_upd: "storage_ok ls \<Longrightarrow> storage_ok (ls(k \<mapsto> JArray xs))"
  by (simp add: storage_ok_def)

lemma storage_ok_del: "storage_ok ls \<Longrightarrow> storage_ok (ls(k := None))"
  by (simp add: storage_ok_def)

lemma existing_array:
  assumes "storage_ok ls"
  shows "(if truthy (getLocalData key ls) then getLocalData key ls else JArray [])
           = JArray (entries key ls)"
proof (cases "ls key")
  case None
  then show ?thesis by (simp add: getLocalData_def entries_def)
next
  case (Some v)
  with assms obtain xs where "v = JArray xs" by (auto simp: storage_ok_def)
  with Some show ?thesis by (simp add: getLocalData_def entries_def)
qed

lemma save_registered:
  assumes "getStorageKey endpoint = Some key" "storage_ok ls"
  shows "saveToLocalStorage endpoint r ls = Inr (ls(key \<mapsto> JArray (entries key ls @ [r])))"
  using assms existing_array [OF assms(2), of key]
  by (simp add: saveToLocalStorage_def Let_def)

lemma save_unregistered:
  assumes "getStorageKey endpoint = None"
  shows "saveToLocalStorage endpoint r ls = Inr ls"
  using assms by (simp add: saveToLocalStorage_def)

lemma save_preserves_ok:
  assumes "storage_ok ls" "saveToLocalStorage endpoint r ls = Inr ls'"
  shows "storage_ok ls'"
proof (cases "getStorageKey endpoint")
  case None
  with assms show ?thesis by (simp add: save_unregistered)
next
  case (Some key)
  with assms show ?thesis by (auto simp: save_registered storage_ok_upd)
qed

text \<open>
  Claim C5. For an endpoint with a storage key, on a storage whose collections are arrays,
  saving a record succeeds and the collection loaded afterwards is the earlier records, in
  their order and with nothing removed, followed by the saved record, which is its last
  element. For an endpoint without a storage key saving leaves the storage as it was and
  loading returns \<open>null\<close>.
\<close>

theorem save_then_load:
  "(getStorageKey endpoint = Some key \<and> storage_ok ls \<longrightarrow>
      saveToLocalStorage endpoint r ls = Inr (ls(key \<mapsto> JArray (entries key ls @ [r])))
      \<and> getFromLocalStorage endpoint (ls(key \<mapsto> JArray (entries key ls @ [r])))
            = JArray (entries key ls @ [r])
      \<and> last (entries key ls @ [r]) = r)
   \<and> (getStorageKey endpoint = None \<longrightarrow>
      saveToLocalStorage endpoint r ls = Inr ls \<and> getFromLocalStorage endpoint ls = JNull)"
  by (simp add: save_registered save_unregistered getFromLocalStorage_def)

lemma key_tickets: "getStorageKey ''/tickets'' = Some ''matatu_tickets''"
  by (simp add: getStorageKey_def STORAGE_KEYS_TICKETS_def)

lemma key_transactions: "getStorageKey ''/transactions'' = None"
  by (simp add: getStorageKey_def)

theorem save_then_load_witness:
  "saveToLocalStorage ''/tickets'' (JObject [(''amount'', JNum 50), (''id'', JStr ''1000'')])
       [''matatu_tickets'' \<mapsto> JArray [JObject [(''amount'', JNum 20), (''id'', JStr ''1000'')]]]
     = Inr [''matatu_tickets'' \<mapsto> JArray [JObject [(''amount'', JNum 20), (''id'', JStr ''1000'')],
                                          JObject [(''amount'', JNum 50), (''id'', JStr ''1000'')]]]
   \<and> saveToLocalStorage ''/transactions'' (JObject [(''amount'', JNum 50)]) Map.empty = Inr Map.empty
   \<and> getFromLocalStorage ''/transactions'' Map.empty = JNull"
proof -
  let ?old = "JObject [(''amount'', JNum 20), (''id'', JStr ''1000'')]"
  let ?ls = "[''matatu_tickets'' \<mapsto> JArray [?old]]"
  have ok: "storage_ok ?ls" by (simp add: storage_ok_def)
  have e: "entries ''matatu_tickets'' ?ls = [?old]" by (simp add: entries_def)
  show ?thesis
    using save_then_load [of "''/tickets''" "''matatu_tickets''" ?ls
            "JObject [(''amount'', JNum 50), (''id'', JStr ''1000'')]"]
          save_then_load [of "''/transactions''" "''x''" Map.empty "JObject [(''amount'', JNum 50)]"]
          ok e key_tickets key_transactions
    by simp
qed

section \<open>Reading through the data layer\<close>

lemma timeout_is_connection_error: "connection_error timeout_error"
  by (simp add: connection_error_def timeout_error_def)

lemma refused_is_connection_error: "connection_error refused_error"
  by (simp add: connection_error_def refused_error_def str_includes_def sublist_Cons_right)

lemma status_not_connection_error: "st \<noteq> 0 \<Longrightarrow> \<not> connection_error (status_error st)"
  by (simp add: connection_error_def status_error_def str_includes_def sublist_Cons_right)

lemma get_fallback:
  assumes "connection_error err" "truthy (getFromLocalStorage endpoint ls)"
  shows "get container ls endpoint (Inl err) =
           (Inr (getFromLocalStorage endpoint ls),
            [ConsoleWarn (''Using local storage data for '' @ endpoint
                            @ '' due to connection error'')])"
  using assms by (simp add: get_def Let_def)

lemma get_rethrow:
  assumes "\<not> connection_error err \<or> \<not> truthy (getFromLocalStorage endpoint ls)"
  shows "get container ls endpoint (Inl err) = (Inl (Axios err), handleError container err)"
  using assms by (auto simp: get_def Let_def)

lemma handleError_shown:
  "container \<Longrightarrow> handleError container err =
     [ConsoleError ''API Error:'' err, Toast Error (handleError_message err)]"
  by (simp add: handleError_def NotificationManager_show_def)

lemma toasts_handleError:
  "container \<Longrightarrow> toasts (handleError container err) = [Toast Error (handleError_message err)]"
  by (simp add: handleError_shown toasts_def is_toast_def)

lemma toasts_warn: "toasts [ConsoleWarn m] = []" "warnings [ConsoleWarn m] = [ConsoleWarn m]"
  by (simp_all add: toasts_def warnings_def is_toast_def is_console_warn_def)

text \<open>
  Claim C2. When a read fails with a connection error (timeout, status 0 or a refused
  connection) and the storage holds a collection for the endpoint, \<open>get\<close> returns that
  collection instead of throwing, and the only event is one console warning that local
  storage data is used.
\<close>

theorem get_connectivity_cache_hit:
  assumes "connection_error err" and "getStorageKey endpoint = Some key"
    and "storage_ok ls" and "ls key = Some cached"
  shows "fst (get container ls endpoint (Inl err)) = Inr cached
         \<and> snd (get container ls endpoint (Inl err)) =
             [ConsoleWarn (''Using local storage data for '' @ endpoint
                             @ '' due to connection error'')]
         \<and> length (warnings (snd (get container ls endpoint (Inl err)))) = 1"
proof -
  from assms(3,4) obtain xs where "cached = JArray xs" by (auto simp: storage_ok_def)
  with assms(2,4) have g: "getFromLocalStorage endpoint ls = cached" "truthy cached"
    by (simp_all add: getFromLocalStorage_def)
  show ?thesis
    using get_fallback [OF assms(1), of endpoint ls container] g
    by (simp add: toasts_warn)
qed

lemma vehicles_cache_ok: "storage_ok vehicles_cache"
  by (simp add: storage_ok_def vehicles_cache_def two_vehicles_def)

lemma vehicles_cache_at: "vehicles_cache STORAGE_KEYS_VEHICLES = Some two_vehicles"
  by (simp add: vehicles_cache_def)

lemma key_of_vehicles: "getStorageKey ''/vehicles'' = Some STORAGE_KEYS_VEHICLES"
  by (simp add: getStorageKey_def)

theorem get_connectivity_cache_hit_witness:
  "fst (get True vehicles_cache ''/vehicles'' (Inl timeout_error)) = Inr two_vehicles
   \<and> snd (get True vehicles_cache ''/vehicles'' (Inl timeout_error))
     = [ConsoleWarn ''Using local storage data for /vehicles due to connection error'']
   \<and> length (warnings (snd (get True vehicles_cache ''/vehicles'' (Inl timeout_error)))) = 1"
  using get_connectivity_cache_hit
          [OF timeout_is_connection_error key_of_vehicles vehicles_cache_ok vehicles_cache_at,
           of True]
  by (simp add: toasts_warn)

lemma handleError_events:
  "handleError container err =
     ConsoleError ''API Error:'' err
       # (if container then [Toast Error (handleError_message err)]
          else [ConsoleWarn ''NotificationManager not initialized''])"
  by (simp add: handleError_def NotificationManager_show_def)

lemma toasts_handleError_any:
  "toasts (handleError container err) =
     (if container then [Toast Error (handleError_message err)] else [])"
  by (simp add: handleError_events toasts_def is_toast_def)

text \<open>
  Claim C6, amended. When a read fails with a response of status 400 to 599 and no sign of
  a connection error, \<open>get\<close> throws the error again, writes one console error, and its
  outcome is the same for every content of the storage: the storage is not consulted. With
  the toast container in place it shows exactly one error toast, whose message names a
  server error for status 500, a missing resource for 404 and is the general message for
  every other status; without the container it shows no toast and writes a console warning
  instead.
\<close>

theorem get_server_failure:
  assumes "response err = Some r" and "400 \<le> status r" and "status r \<le> 599"
    and "\<not> connection_error err"
  shows "get container ls endpoint (Inl err) =
           (Inl (Axios err),
            ConsoleError ''API Error:'' err
              # (if container then [Toast Error (handleError_message err)]
                 else [ConsoleWarn ''NotificationManager not initialized'']))
         \<and> toasts (snd (get container ls endpoint (Inl err))) =
             (if container then [Toast Error (handleError_message err)] else [])
         \<and> handleError_message err =
             (if status r = 500 then ''Server error. Please try again later.''
              else if status r = 404 then ''Resource not found.''
              else ''An unexpected error occurred'')
         \<and> get container ls' endpoint (Inl err) = get container ls endpoint (Inl err)"
proof -
  from assms(4) have nc: "code err \<noteq> Some ''ECONNABORTED''"
    by (simp add: connection_error_def)
  have m: "handleError_message err =
             (if status r = 500 then ''Server error. Please try again later.''
              else if status r = 404 then ''Resource not found.''
              else ''An unexpected error occurred'')"
    using assms(1) nc by (simp add: handleError_message_def)
  have g: "get container s endpoint (Inl err) = (Inl (Axios err), handleError container err)"
    for s
    using assms(4) by (simp add: get_rethrow)
  have a: "get container ls endpoint (Inl err) =
           (Inl (Axios err),
            ConsoleError ''API Error:'' err
              # (if container then [Toast Error (handleError_message err)]
                 else [ConsoleWarn ''NotificationManager not initialized'']))"
    by (simp only: g handleError_events)
  have b: "toasts (snd (get container ls endpoint (Inl err))) =
             (if container then [Toast Error (handleError_message err)] else [])"
    by (simp only: g snd_conv toasts_handleError_any)
  have c: "get container ls' endpoint (Inl err) = get container ls endpoint (Inl err)"
    by (simp only: g)
  from a b m c show ?thesis by blast
qed

lemma status_error_response: "response (status_error st) = Some \<lparr>status = st\<rparr>"
  by (simp add: status_error_def)

theorem get_server_failure_witness:
  "get True vehicles_cache ''/reports'' (Inl (status_error 500)) =
     (Inl (Axios (status_error 500)),
      [ConsoleError ''API Error:'' (status_error 500),
       Toast Error ''Server error. Please try again later.''])
   \<and> get False vehicles_cache ''/reports'' (Inl (status_error 404)) =
     (Inl (Axios (status_error 404)),
      [ConsoleError ''API Error:'' (status_error 404),
       ConsoleWarn ''NotificationManager not initialized''])"
proof -
  have nc: "\<not> connection_error (status_error 500)" "\<not> connection_error (status_error 404)"
    by (simp_all add: status_not_connection_error)
  have b: "400 \<le> status \<lparr>status = 500\<rparr>" "status \<lparr>status = 500\<rparr> \<le> 599" by simp_all
  have b': "400 \<le> status \<lparr>status = 404\<rparr>" "status \<lparr>status = 404\<rparr> \<le> 599" by simp_all
  from get_server_failure [OF status_error_response b nc(1),
         where container = True and ls = vehicles_cache and endpoint = "''/reports''"]
    get_server_failure [OF status_error_response b' nc(2),
         where container = False and ls = vehicles_cache and endpoint = "''/reports''"]
  show ?thesis by simp
qed

text \<open>
  Claim C6 as stated fails: without the toast container a read failing with status 500
  shows no toast; and with it a read failing with status 503 is told only that an
  unexpected error occurred.
\<close>

theorem get_server_failure_without_container:
  "toasts (snd (get False vehicles_cache ''/reports'' (Inl (status_error 500)))) = []
   \<and> toasts (snd (get True vehicles_cache ''/reports'' (Inl (status_error 503))))
       = [Toast Error ''An unexpected error occurred'']"
proof -
  have nc: "\<not> connection_error (status_error 500)" "\<not> connection_error (status_error 503)"
    by (simp_all add: status_not_connection_error)
  have m: "handleError_message (status_error 503) = ''An unexpected error occurred''"
    by (simp add: handleError_message_def status_error_def)
  have g: "get False vehicles_cache ''/reports'' (Inl (status_error 500)) =
             (Inl (Axios (status_error 500)), handleError False (status_error 500))"
    "get True vehicles_cache ''/reports'' (Inl (status_error 503)) =
             (Inl (Axios (status_error 503)), handleError True (status_error 503))"
    using nc by (simp_all add: get_rethrow)
  show ?thesis unfolding g by (simp add: toasts_handleError_any m)
qed

section \<open>Writing through the data layer\<close>

lemma post_success:
  "post container now ls endpoint data (Inr resp) =
     (Inr resp, syncWithLocalStorage endpoint resp ls, [])"
  by (simp add: post_def)

lemma post_offline:
  assumes "connection_error err"
    and "saveToLocalStorage endpoint
           (JObject (set_field ''id'' (JStr (toString now)) (spread data))) ls = Inr ls'"
  shows "post container now ls endpoint data (Inl err) =
           (Inr (JObject [(mock_key endpoint, JStr (toString now))]), ls',
            [ConsoleWarn (''Stored '' @ endpoint @ '' locally due to connection error: ''
                            @ toString now)])"
  using assms by (simp add: post_def Let_def)

lemma post_rethrow:
  assumes "\<not> connection_error err"
  shows "post container now ls endpoint data (Inl err) =
           (Inl (Axios err), ls, handleError container err)"
  using assms by (simp add: post_def)

lemma save_total:
  assumes "storage_ok ls"
  shows "\<exists>ls'. saveToLocalStorage endpoint r ls = Inr ls' \<and> storage_ok ls'"
proof (cases "getStorageKey endpoint")
  case None
  with assms show ?thesis by (simp add: save_unregistered)
next
  case (Some key)
  with assms show ?thesis by (simp add: save_registered storage_ok_upd)
qed

lemma post_offline_ok:
  assumes "connection_error err" and "storage_ok ls"
  shows "\<exists>ls'. storage_ok ls' \<and>
           post container now ls endpoint data (Inl err) =
             (Inr (JObject [(mock_key endpoint, JStr (toString now))]), ls',
              [ConsoleWarn (''Stored '' @ endpoint @ '' locally due to connection error: ''
                              @ toString now)])"
proof -
  obtain ls' where s: "saveToLocalStorage endpoint
           (JObject (set_field ''id'' (JStr (toString now)) (spread data))) ls = Inr ls'"
    and ok: "storage_ok ls'"
    using save_total [OF assms(2)] by blast
  from post_offline [OF assms(1) s] ok show ?thesis by blast
qed

text \<open>
  Every collection is an array in the empty storage, and \<open>post\<close> keeps it so whatever the
  request's outcome; \<open>get\<close> does not write. So the storages this program reaches from an
  empty one all satisfy \<^const>\<open>storage_ok\<close>.
\<close>

lemma post_keeps_storage_ok:
  assumes "storage_ok ls"
  shows "storage_ok (fst (snd (post container now ls endpoint data net)))"
proof (cases net)
  case (Inr resp)
  then show ?thesis
    using assms
    by (simp add: post_success syncWithLocalStorage_def storage_ok_del split: option.splits)
next
  case (Inl err)
  show ?thesis
  proof (cases "connection_error err")
    case True
    from post_offline_ok [OF True assms, of container now endpoint data] Inl
    show ?thesis by auto
  next
    case False
    with Inl assms show ?thesis by (simp add: post_rethrow)
  qed
qed

lemma mock_key_cases:
  "(str_includes endpoint ''vehicles'' \<longrightarrow> mock_key endpoint = ''vehicle_id'')
   \<and> (\<not> str_includes endpoint ''vehicles'' \<and> str_includes endpoint ''tickets''
        \<longrightarrow> mock_key endpoint = ''ticket_id'')
   \<and> (\<not> str_includes endpoint ''vehicles'' \<and> \<not> str_includes endpoint ''tickets''
        \<and> str_includes endpoint ''parcels'' \<longrightarrow> mock_key endpoint = ''parcel_id'')
   \<and> (\<not> str_includes endpoint ''vehicles'' \<and> \<not> str_includes endpoint ''tickets''
        \<and> \<not> str_includes endpoint ''parcels'' \<longrightarrow> mock_key endpoint = [])"
  by (simp add: mock_key_def)

lemma includes_eval:
  "str_includes (c # cs) needle = (prefix needle (c # cs) \<or> str_includes cs needle)"
  "str_includes [] needle = (needle = [])"
  by (simp_all add: str_includes_def sublist_Cons_right)

lemma toString_1000: "toString 1000 = ''1000''"
  by (simp add: toString_def digits.simps digit_char_def)

lemma toString_1001: "toString 1001 = ''1001''"
  by (simp add: toString_def digits.simps digit_char_def)

text \<open>
  Claim C3, amended. A write that succeeds over the network returns the server's payload
  unchanged and, for an endpoint with a storage key, removes that collection from the
  storage whatever it held: loading it afterwards gives \<open>null\<close> and it has no records. The
  other collections stay as they were, no event is produced, and the server's payload is
  not written to the storage.
\<close>

theorem post_success_clears_collection:
  assumes "getStorageKey endpoint = Some key"
  shows "post container now ls endpoint data (Inr resp) = (Inr resp, ls(key := None), [])
         \<and> getFromLocalStorage endpoint (ls(key := None)) = JNull
         \<and> entries key (ls(key := None)) = []"
  using assms
  by (simp add: post_success syncWithLocalStorage_def getFromLocalStorage_def entries_def)

theorem post_success_clears_collection_witness:
  "post True 1000 vehicles_cache ''/vehicles'' (JObject [(''name'', JStr ''Coach'')])
       (Inr (JObject [(''vehicle_id'', JStr ''v9'')]))
     = (Inr (JObject [(''vehicle_id'', JStr ''v9'')]),
        vehicles_cache(STORAGE_KEYS_VEHICLES := None), [])"
  using post_success_clears_collection [OF key_of_vehicles, of True 1000 vehicles_cache]
  by simp

text \<open>
  Claim C3 as stated fails: after a successful write to \<open>/vehicles\<close> the collection
  does not hold the server's result; loading it returns \<open>null\<close>.
\<close>

theorem post_success_not_mirrored:
  "getFromLocalStorage ''/vehicles''
     (fst (snd (post True 1000 vehicles_cache ''/vehicles'' (JObject [(''name'', JStr ''Coach'')])
                  (Inr (JObject [(''vehicle_id'', JStr ''v9'')]))))) = JNull"
  by (simp add: post_success syncWithLocalStorage_def getFromLocalStorage_def key_of_vehicles)

text \<open>
  Claim C4, amended. A write that fails with a connection error, on a storage whose
  collections are arrays, returns an object with exactly one field, holding the
  synthesized identifier. The field is named \<open>vehicle_id\<close> when the endpoint contains
  \<open>vehicles\<close>, else \<open>ticket_id\<close> when it contains \<open>tickets\<close>, else \<open>parcel_id\<close> when it
  contains \<open>parcels\<close>, and by the empty string for every other endpoint.
\<close>

theorem post_offline_result:
  assumes "connection_error err" and "storage_ok ls"
  shows "fst (post container now ls endpoint data (Inl err)) =
           Inr (JObject [(mock_key endpoint, JStr (toString now))])
   \<and> (str_includes endpoint ''vehicles'' \<longrightarrow> mock_key endpoint = ''vehicle_id'')
   \<and> (\<not> str_includes endpoint ''vehicles'' \<and> str_includes endpoint ''tickets''
        \<longrightarrow> mock_key endpoint = ''ticket_id'')
   \<and> (\<not> str_includes endpoint ''vehicles'' \<and> \<not> str_includes endpoint ''tickets''
        \<and> str_includes endpoint ''parcels'' \<longrightarrow> mock_key endpoint = ''parcel_id'')
   \<and> (\<not> str_includes endpoint ''vehicles'' \<and> \<not> str_includes endpoint ''tickets''
        \<and> \<not> str_includes endpoint ''parcels'' \<longrightarrow> mock_key endpoint = [])"
proof -
  obtain ls' where "post container now ls endpoint data (Inl err) =
             (Inr (JObject [(mock_key endpoint, JStr (toString now))]), ls',
              [ConsoleWarn (''Stored '' @ endpoint @ '' locally due to connection error: ''
                              @ toString now)])"
    using post_offline_ok [OF assms] by blast
  then have "fst (post container now ls endpoint data (Inl err)) =
           Inr (JObject [(mock_key endpoint, JStr (toString now))])"
    by simp
  with mock_key_cases [of endpoint] show ?thesis by blast
qed

lemma mock_key_tickets: "mock_key ''/tickets'' = ''ticket_id''"
  by (simp add: mock_key_def includes_eval)

lemma mock_key_reports: "mock_key ''/reports'' = []"
  by (simp add: mock_key_def includes_eval)

theorem post_offline_result_witness:
  "fst (post True 1000 vehicles_cache ''/tickets'' ticket_payload (Inl timeout_error)) =
     Inr (JObject [(''ticket_id'', JStr ''1000'')])"
  using post_offline_result [OF timeout_is_connection_error vehicles_cache_ok,
          of True 1000 "''/tickets''" ticket_payload]
  by (simp add: mock_key_tickets toString_1000)

text \<open>
  Claim C4 as stated fails: for \<open>/reports\<close>, which the lookup does not recognise, the
  returned object is not empty; it carries the identifier in a field named by the empty
  string.
\<close>

theorem post_offline_unrecognised_field:
  "fst (post True 1000 vehicles_cache ''/reports'' ticket_payload (Inl timeout_error)) =
     Inr (JObject [([], JStr ''1000'')])"
proof -
  obtain ls' where "post True 1000 vehicles_cache ''/reports'' ticket_payload (Inl timeout_error) =
             (Inr (JObject [(mock_key ''/reports'', JStr (toString 1000))]), ls',
              [ConsoleWarn (''Stored '' @ ''/reports'' @ '' locally due to connection error: ''
                              @ toString 1000)])"
    using post_offline_ok [OF timeout_is_connection_error vehicles_cache_ok] by blast
  then show ?thesis by (simp add: mock_key_reports toString_1000)
qed

section \<open>Offline identifiers and notifications\<close>

text \<open>
  Claim C7, amended. The identifier of an offline write is the decimal rendering of the
  clock reading taken during the write; two offline writes, the second on the storage left
  by the first, get different identifiers exactly when their clock readings differ.
\<close>

theorem offline_identifiers:
  assumes "connection_error e1" and "connection_error e2" and "storage_ok ls"
  shows "fst (post c t1 ls ep1 d1 (Inl e1)) = Inr (JObject [(mock_key ep1, JStr (toString t1))])
   \<and> fst (post c t2 (fst (snd (post c t1 ls ep1 d1 (Inl e1)))) ep2 d2 (Inl e2))
        = Inr (JObject [(mock_key ep2, JStr (toString t2))])
   \<and> (toString t1 = toString t2 \<longleftrightarrow> t1 = t2)"
proof -
  obtain ls1 where ok1: "storage_ok ls1"
    and p1: "post c t1 ls ep1 d1 (Inl e1) =
             (Inr (JObject [(mock_key ep1, JStr (toString t1))]), ls1,
              [ConsoleWarn (''Stored '' @ ep1 @ '' locally due to connection error: ''
                              @ toString t1)])"
    using post_offline_ok [OF assms(1,3)] by blast
  obtain ls2 where p2: "post c t2 ls1 ep2 d2 (Inl e2) =
             (Inr (JObject [(mock_key ep2, JStr (toString t2))]), ls2,
              [ConsoleWarn (''Stored '' @ ep2 @ '' locally due to connection error: ''
                              @ toString t2)])"
    using post_offline_ok [OF assms(2) ok1] by blast
  from p1 p2 show ?thesis by (simp add: toString_inj)
qed

theorem offline_identifiers_witness:
  "fst (post True 1000 vehicles_cache ''/tickets'' ticket_payload (Inl timeout_error))
     = Inr (JObject [(''ticket_id'', JStr ''1000'')])
   \<and> fst (post True 1001
           (fst (snd (post True 1000 vehicles_cache ''/tickets'' ticket_payload
                        (Inl timeout_error))))
           ''/tickets'' ticket_payload (Inl refused_error))
     = Inr (JObject [(''ticket_id'', JStr ''1001'')])
   \<and> toString 1000 \<noteq> toString 1001"
  using offline_identifiers [OF timeout_is_connection_error refused_is_connection_error
          vehicles_cache_ok, of True 1000 "''/tickets''" ticket_payload 1001 "''/tickets''"
          ticket_payload]
  by (simp add: mock_key_tickets toString_1000 toString_1001)

text \<open>
  Claim C7 as stated fails: two offline writes made at the same clock reading (within one
  millisecond) return the same identifier.
\<close>

theorem offline_identifiers_collide:
  "fst (post True 1000
          (fst (snd (post True 1000 vehicles_cache ''/tickets'' ticket_payload
                       (Inl timeout_error))))
          ''/tickets'' ticket_payload (Inl timeout_error))
     = fst (post True 1000 vehicles_cache ''/tickets'' ticket_payload (Inl timeout_error))"
proof -
  obtain ls1 where ok1: "storage_ok ls1"
    and p1: "post True 1000 vehicles_cache ''/tickets'' ticket_payload (Inl timeout_error) =
             (Inr (JObject [(mock_key ''/tickets'', JStr (toString 1000))]), ls1,
              [ConsoleWarn (''Stored '' @ ''/tickets'' @ '' locally due to connection error: ''
                              @ toString 1000)])"
    using post_offline_ok [OF timeout_is_connection_error vehicles_cache_ok] by blast
  obtain ls2 where p2: "post True 1000 ls1 ''/tickets'' ticket_payload (Inl timeout_error) =
             (Inr (JObject [(mock_key ''/tickets'', JStr (toString 1000))]), ls2,
              [ConsoleWarn (''Stored '' @ ''/tickets'' @ '' locally due to connection error: ''
                              @ toString 1000)])"
    using post_offline_ok [OF timeout_is_connection_error ok1] by blast
  from p1 p2 show ?thesis by simp
qed

lemma unregistered_when_longer:
  assumes "str_includes endpoint ''vehicles'' \<or> str_includes endpoint ''tickets''
           \<or> str_includes endpoint ''parcels''"
    and "endpoint \<noteq> ''/vehicles''" and "endpoint \<noteq> ''/tickets''" and "endpoint \<noteq> ''/parcels''"
  shows "getStorageKey endpoint = None"
proof -
  have "\<not> str_includes ''/receipts'' ''vehicles''" "\<not> str_includes ''/receipts'' ''tickets''"
    "\<not> str_includes ''/receipts'' ''parcels''" "\<not> str_includes ''/reports'' ''vehicles''"
    "\<not> str_includes ''/reports'' ''tickets''" "\<not> str_includes ''/reports'' ''parcels''"
    by (simp_all add: includes_eval)
  with assms(1) have "endpoint \<noteq> ''/receipts''" "endpoint \<noteq> ''/reports''" by auto
  with assms(2-4) show ?thesis by (simp add: getStorageKey_def)
qed

text \<open>
  Claim C10. For an endpoint that contains \<open>vehicles\<close>, \<open>tickets\<close> or \<open>parcels\<close> and
  is none of \<open>/vehicles\<close>, \<open>/tickets\<close>, \<open>/parcels\<close>, a write that fails with a connection
  error returns an object whose one field is chosen by substring containment
  (\<open>vehicle_id\<close> when the endpoint contains \<open>vehicles\<close>, else \<open>ticket_id\<close> when it
  contains \<open>tickets\<close>, else \<open>parcel_id\<close>) and holds the synthesized identifier, yet it
  leaves the storage exactly as it was.
\<close>

theorem post_offline_unregistered_path:
  assumes "str_includes endpoint ''vehicles'' \<or> str_includes endpoint ''tickets''
           \<or> str_includes endpoint ''parcels''"
    and "endpoint \<noteq> ''/vehicles''" and "endpoint \<noteq> ''/tickets''" and "endpoint \<noteq> ''/parcels''"
    and "connection_error err"
  shows "post container now ls endpoint data (Inl err) =
           (Inr (JObject [(if str_includes endpoint ''vehicles'' then ''vehicle_id''
                           else if str_includes endpoint ''tickets'' then ''ticket_id''
                           else ''parcel_id'',
                           JStr (toString now))]),
            ls,
            [ConsoleWarn (''Stored '' @ endpoint @ '' locally due to connection error: ''
                            @ toString now)])"
proof -
  have "getStorageKey endpoint = None"
    using assms(1-4) by (rule unregistered_when_longer)
  then have s: "saveToLocalStorage endpoint
           (JObject (set_field ''id'' (JStr (toString now)) (spread data))) ls = Inr ls"
    by (rule save_unregistered)
  have k: "mock_key endpoint =
             (if str_includes endpoint ''vehicles'' then ''vehicle_id''
              else if str_includes endpoint ''tickets'' then ''ticket_id''
              else ''parcel_id'')"
    using assms(1) by (auto simp: mock_key_def)
  from post_offline [OF assms(5) s, of container] show ?thesis
    by (simp only: k)
qed

theorem post_offline_unregistered_path_witness:
  "post True 1000 vehicles_cache ''/vehicles/extra'' ticket_payload (Inl timeout_error) =
     (Inr (JObject [(''vehicle_id'', JStr ''1000'')]), vehicles_cache,
      [ConsoleWarn ''Stored /vehicles/extra locally due to connection error: 1000''])
   \<and> post True 1000 vehicles_cache ''/tickets/7'' ticket_payload (Inl timeout_error) =
     (Inr (JObject [(''ticket_id'', JStr ''1000'')]), vehicles_cache,
      [ConsoleWarn ''Stored /tickets/7 locally due to connection error: 1000''])
   \<and> post True 1000 vehicles_cache ''/my-parcels'' ticket_payload (Inl timeout_error) =
     (Inr (JObject [(''parcel_id'', JStr ''1000'')]), vehicles_cache,
      [ConsoleWarn ''Stored /my-parcels locally due to connection error: 1000''])"
proof -
  have v: "str_includes ''/vehicles/extra'' ''vehicles''"
    by (simp add: includes_eval)
  have t: "\<not> str_includes ''/tickets/7'' ''vehicles''" "str_includes ''/tickets/7'' ''tickets''"
    by (simp_all add: includes_eval)
  have p: "\<not> str_includes ''/my-parcels'' ''vehicles''" "\<not> str_includes ''/my-parcels'' ''tickets''"
    "str_includes ''/my-parcels'' ''parcels''"
    by (simp_all add: includes_eval)
  have a: "post True 1000 vehicles_cache ''/vehicles/extra'' ticket_payload (Inl timeout_error) =
     (Inr (JObject [(''vehicle_id'', JStr ''1000'')]), vehicles_cache,
      [ConsoleWarn ''Stored /vehicles/extra locally due to connection error: 1000''])"
    using post_offline_unregistered_path [where endpoint = "''/vehicles/extra''"
            and err = timeout_error and container = True and now = 1000
            and ls = vehicles_cache and data = ticket_payload]
      v timeout_is_connection_error
    by (simp add: toString_1000)
  have b: "post True 1000 vehicles_cache ''/tickets/7'' ticket_payload (Inl timeout_error) =
     (Inr (JObject [(''ticket_id'', JStr ''1000'')]), vehicles_cache,
      [ConsoleWarn ''Stored /tickets/7 locally due to connection error: 1000''])"
    using post_offline_unregistered_path [where endpoint = "''/tickets/7''"
            and err = timeout_error and container = True and now = 1000
            and ls = vehicles_cache and data = ticket_payload]
      t timeout_is_connection_error
    by (simp add: toString_1000)
  have c: "post True 1000 vehicles_cache ''/my-parcels'' ticket_payload (Inl timeout_error) =
     (Inr (JObject [(''parcel_id'', JStr ''1000'')]), vehicles_cache,
      [ConsoleWarn ''Stored /my-parcels locally due to connection error: 1000''])"
    using post_offline_unregistered_path [where endpoint = "''/my-parcels''"
            and err = timeout_error and container = True and now = 1000
            and ls = vehicles_cache and data = ticket_payload]
      p timeout_is_connection_error
    by (simp add: toString_1000)
  from a b c show ?thesis by blast
qed

text \<open>
  Claim C1, amended. With the toast container in place and a storage whose collections are
  arrays: a failed \<open>get\<close> or \<open>post\<close> that throws the error again shows exactly one toast,
  of type error; a failed \<open>get\<close> or \<open>post\<close> that returns a value (the cached collection,
  the mock response of an offline write) happens only on a connection error, shows no
  toast and writes exactly one console warning.
\<close>

theorem failure_notifications:
  assumes "container" and "storage_ok ls"
  shows "(case get container ls endpoint (Inl err) of
            (Inl e, evs) \<Rightarrow>
              e = Axios err \<and> toasts evs = [Toast Error (handleError_message err)]
          | (Inr v, evs) \<Rightarrow>
              connection_error err \<and> toasts evs = [] \<and> length (warnings evs) = 1)
       \<and> (case post container now ls endpoint data (Inl err) of
            (Inl e, ls', evs) \<Rightarrow>
              e = Axios err \<and> ls' = ls \<and> toasts evs = [Toast Error (handleError_message err)]
          | (Inr v, ls', evs) \<Rightarrow>
              connection_error err \<and> toasts evs = [] \<and> length (warnings evs) = 1)"
proof -
  have g: "case get container ls endpoint (Inl err) of
            (Inl e, evs) \<Rightarrow>
              e = Axios err \<and> toasts evs = [Toast Error (handleError_message err)]
          | (Inr v, evs) \<Rightarrow>
              connection_error err \<and> toasts evs = [] \<and> length (warnings evs) = 1"
  proof (cases "connection_error err \<and> truthy (getFromLocalStorage endpoint ls)")
    case True
    then show ?thesis by (simp add: get_fallback toasts_warn)
  next
    case False
    then have "get container ls endpoint (Inl err) = (Inl (Axios err), handleError container err)"
      by (intro get_rethrow) blast
    then show ?thesis by (simp add: toasts_handleError [OF assms(1)])
  qed
  have p: "case post container now ls endpoint data (Inl err) of
            (Inl e, ls', evs) \<Rightarrow>
              e = Axios err \<and> ls' = ls \<and> toasts evs = [Toast Error (handleError_message err)]
          | (Inr v, ls', evs) \<Rightarrow>
              connection_error err \<and> toasts evs = [] \<and> length (warnings evs) = 1"
  proof (cases "connection_error err")
    case True
    from post_offline_ok [OF True assms(2), of container now endpoint data] True
    show ?thesis by (auto simp: toasts_warn)
  next
    case False
    then show ?thesis by (simp add: post_rethrow toasts_handleError [OF assms(1)])
  qed
  from g p show ?thesis by blast
qed

theorem failure_notifications_witness:
  "toasts (snd (get True vehicles_cache ''/tickets'' (Inl (status_error 404))))
     = [Toast Error ''Resource not found.'']
   \<and> toasts (snd (snd (post True 1000 vehicles_cache ''/tickets'' ticket_payload
                         (Inl (status_error 404)))))
     = [Toast Error ''Resource not found.'']"
proof -
  have nc: "\<not> connection_error (status_error 404)"
    by (simp add: status_not_connection_error)
  have m: "handleError_message (status_error 404) = ''Resource not found.''"
    by (simp add: handleError_message_def status_error_def)
  have g: "get True vehicles_cache ''/tickets'' (Inl (status_error 404)) =
             (Inl (Axios (status_error 404)), handleError True (status_error 404))"
    using nc by (simp add: get_rethrow)
  have p: "post True 1000 vehicles_cache ''/tickets'' ticket_payload (Inl (status_error 404)) =
             (Inl (Axios (status_error 404)), vehicles_cache, handleError True (status_error 404))"
    using nc by (simp add: post_rethrow)
  from failure_notifications [OF TrueI vehicles_cache_ok, where endpoint = "''/tickets''"
         and err = "status_error 404" and now = 1000 and data = ticket_payload]
  show ?thesis unfolding g p by (simp add: m)
qed

text \<open>
  Claim C1 as stated fails: the read answered from the local storage and the offline write
  show no toast at all; their only trace is a line on the developer console.
\<close>

theorem fallback_shows_no_toast:
  "toasts (snd (get True vehicles_cache ''/vehicles'' (Inl timeout_error))) = []
   \<and> toasts (snd (snd (post True 1000 vehicles_cache ''/tickets'' ticket_payload
                         (Inl timeout_error)))) = []"
proof -
  have t: "truthy (getFromLocalStorage ''/vehicles'' vehicles_cache)"
    by (simp add: getFromLocalStorage_def key_of_vehicles vehicles_cache_at two_vehicles_def)
  have g: "toasts (snd (get True vehicles_cache ''/vehicles'' (Inl timeout_error))) = []"
    by (simp add: get_fallback [OF timeout_is_connection_error t] toasts_warn)
  obtain ls' where "post True 1000 vehicles_cache ''/tickets'' ticket_payload (Inl timeout_error) =
             (Inr (JObject [(mock_key ''/tickets'', JStr (toString 1000))]), ls',
              [ConsoleWarn (''Stored '' @ ''/tickets'' @ '' locally due to connection error: ''
                              @ toString 1000)])"
    using post_offline_ok [OF timeout_is_connection_error vehicles_cache_ok] by blast
  then have "toasts (snd (snd (post True 1000 vehicles_cache ''/tickets'' ticket_payload
                         (Inl timeout_error)))) = []"
    by (simp add: toasts_warn)
  with g show ?thesis by blast
qed

section \<open>Form fields\<close>

lemma put_error_other: "k' \<noteq> k \<Longrightarrow> put_error k msg es k' = es k'"
  by (simp add: put_error_def split: option.splits)

lemma put_error_same: "put_error k msg es k = (case msg of None \<Rightarrow> es k | Some m \<Rightarrow> Some m)"
  by (simp add: put_error_def split: option.splits)

lemma ticket_phone_entry:
  "errors (validateTicketForm bad_float formData) ''phoneNumber'' =
     phone_error (formData ''phoneNumber'')
       ''Phone number is required'' ''Invalid phone number format''"
  by (simp add: validateTicketForm_def Let_def put_error_other put_error_same
           split: option.splits)

lemma parcel_sender_entry:
  "errors (validateParcelForm bad_float formData) ''senderPhone'' =
     phone_error (formData ''senderPhone'')
       ''Sender phone is required'' ''Invalid sender phone format''"
  by (simp add: validateParcelForm_def Let_def put_error_other put_error_same
           split: option.splits)

lemma parcel_receiver_entry:
  "errors (validateParcelForm bad_float formData) ''receiverPhone'' =
     phone_error (formData ''receiverPhone'')
       ''Receiver phone is required'' ''Invalid receiver phone format''"
  by (simp add: validateParcelForm_def Let_def put_error_other put_error_same
           split: option.splits)

lemma vehicle_capacity_entry:
  "errors (validateVehicleForm formData) ''capacity'' = capacity_error (formData ''capacity'')"
  by (simp add: validateVehicleForm_def Let_def put_error_other put_error_same
           split: option.splits)

lemma phone_language_accepted:
  assumes "s \<in> phone_language"
  shows "PHONE_PATTERN_test s"
proof -
  from assms obtain p d r where s: "s = p @ [d] @ r"
    and p: "p = ''+254'' \<or> p = ''0''" and d: "d = CHR ''1'' \<or> d = CHR ''7''"
    and r: "length r = 8" "\<forall>c \<in> set r. is_digit c"
    by (auto simp: phone_language_def)
  from p show ?thesis
  proof
    assume "p = ''+254''"
    with s d r show ?thesis
      by (auto simp: PHONE_PATTERN_test_def list_all_iff)
  next
    assume "p = ''0''"
    with s d r show ?thesis
      by (auto simp: PHONE_PATTERN_test_def list_all_iff)
  qed
qed

lemma phone_tail:
  assumes "length r = 9" and "hd r = CHR ''1'' \<or> hd r = CHR ''7''" and "list_all is_digit (tl r)"
  shows "p = ''+254'' \<or> p = ''0'' \<Longrightarrow> p @ r \<in> phone_language"
proof -
  assume p: "p = ''+254'' \<or> p = ''0''"
  from assms(1) obtain d r' where r: "r = d # r'" by (cases r) auto
  with assms have "length r' = 8" "d = CHR ''1'' \<or> d = CHR ''7''" "\<forall>c \<in> set r'. is_digit c"
    by (auto simp: list_all_iff)
  with p have "p @ [d] @ r' \<in> phone_language"
    unfolding phone_language_def by blast
  with r show ?thesis by simp
qed

lemma phone_accepted_language:
  assumes "PHONE_PATTERN_test s"
  shows "s \<in> phone_language"
proof (cases "take 4 s = ''+254''")
  case True
  with assms have "length (drop 4 s) = 9"
    "hd (drop 4 s) = CHR ''1'' \<or> hd (drop 4 s) = CHR ''7''" "list_all is_digit (tl (drop 4 s))"
    by (simp_all add: PHONE_PATTERN_test_def)
  then have "''+254'' @ drop 4 s \<in> phone_language"
    by (intro phone_tail) simp_all
  moreover have "s = take 4 s @ drop 4 s" by simp
  ultimately show ?thesis using True by metis
next
  case False
  show ?thesis
  proof (cases "take 1 s = ''0''")
    case True
    with False assms have "length (drop 1 s) = 9"
      "hd (drop 1 s) = CHR ''1'' \<or> hd (drop 1 s) = CHR ''7''" "list_all is_digit (tl (drop 1 s))"
      by (simp_all add: PHONE_PATTERN_test_def)
    then have "''0'' @ drop 1 s \<in> phone_language"
      by (intro phone_tail) simp_all
    moreover have "s = take 1 s @ drop 1 s" by simp
    ultimately show ?thesis using True by metis
  next
    case F2: False
    with False assms show ?thesis by (simp add: PHONE_PATTERN_test_def)
  qed
qed

lemma PHONE_PATTERN_language: "PHONE_PATTERN_test s \<longleftrightarrow> s \<in> phone_language"
  using phone_language_accepted phone_accepted_language by blast

section \<open>Capacity and phone validation\<close>

lemma dropWhile_snoc_nonempty: "\<not> P y \<Longrightarrow> dropWhile P (xs @ [y]) \<noteq> []"
  by (induction xs) auto

lemma trim_nonempty:
  assumes "\<not> is_ws c"
  shows "trim (c # cs) \<noteq> []"
proof -
  have "dropWhile is_ws (c # cs) = c # cs" using assms by simp
  then have "trim (c # cs) = rev (dropWhile is_ws (rev cs @ [c]))"
    by (simp add: trim_def)
  with dropWhile_snoc_nonempty [of is_ws c "rev cs"] assms show ?thesis by simp
qed

lemma toString_head:
  "\<exists>c cs. toString n = c # cs \<and> \<not> is_ws c"
proof (cases "n < 0")
  case True
  then show ?thesis by (simp add: toString_def sign_not_digit)
next
  case False
  obtain c cs where d: "digits (nat n) = c # cs"
    using digits_nonempty [of "nat n"] by (cases "digits (nat n)") auto
  with hd_digits_is_digit [of "nat n"] have "\<not> is_ws c" by (simp add: digit_not_ws)
  with d False show ?thesis by (simp add: toString_def)
qed

lemma trim_toString_nonempty: "trim (toString n @ rest) \<noteq> []"
proof -
  obtain c cs where "toString n = c # cs" "\<not> is_ws c" using toString_head by blast
  then show ?thesis using trim_nonempty [of c "cs @ rest"] by simp
qed

lemma parseInt10_no_number:
  assumes "\<not> is_ws c" and "\<not> is_digit c" and "c \<noteq> CHR ''+''" and "c \<noteq> CHR ''-''"
  shows "parseInt10 (c # cs) = None"
  using assms by (simp add: parseInt10_def)

lemma capacity_of_number:
  assumes "rest = [] \<or> \<not> is_digit (hd rest)"
  shows "capacity_error (Some (toString n @ rest)) =
           (if 1 \<le> n \<and> n \<le> 100 then None else Some ''Capacity must be between 1 and 100'')"
  using parseInt10_toString [OF assms, of n] trim_toString_nonempty [of n rest]
  by (auto simp: capacity_error_def)

lemma capacity_blank:
  assumes "blank c"
  shows "capacity_error c = Some ''Capacity is required''"
  using assms by (auto simp: capacity_error_def blank_def split: option.splits)

lemma capacity_no_number:
  assumes "\<not> is_ws c" and "\<not> is_digit c" and "c \<noteq> CHR ''+''" and "c \<noteq> CHR ''-''"
  shows "capacity_error (Some (c # cs)) = Some ''Capacity must be between 1 and 100''"
  using parseInt10_no_number [OF assms, of cs] trim_nonempty [OF assms(1), of cs]
  by (simp add: capacity_error_def)

text \<open>
  Claim C9, amended. The capacity entry of the vehicle form's errors is decided by the
  integer that \<open>parseInt\<close> reads at the start of the input: an input made of the decimal
  rendering of an integer \<open>n\<close>, followed by nothing or by text that does not start with a
  digit, is accepted when \<open>1 \<le> n \<le> 100\<close> and gets the range message otherwise; an input
  starting with a character that is neither white space, a digit nor a sign gets the range
  message; a missing, empty or blank input gets the required message; the two messages
  differ.
\<close>

theorem capacity_validation:
  "errors (validateVehicleForm formData) ''capacity'' = capacity_error (formData ''capacity'')
   \<and> (rest = [] \<or> \<not> is_digit (hd rest) \<longrightarrow>
        capacity_error (Some (toString n @ rest)) =
          (if 1 \<le> n \<and> n \<le> 100 then None else Some ''Capacity must be between 1 and 100''))
   \<and> (\<not> is_ws c \<and> \<not> is_digit c \<and> c \<noteq> CHR ''+'' \<and> c \<noteq> CHR ''-'' \<longrightarrow>
        capacity_error (Some (c # cs)) = Some ''Capacity must be between 1 and 100'')
   \<and> (blank x \<longrightarrow> capacity_error x = Some ''Capacity is required'')
   \<and> ''Capacity is required'' \<noteq> ''Capacity must be between 1 and 100''"
  using vehicle_capacity_entry [of formData] capacity_of_number [of rest n]
    capacity_no_number [of c cs] capacity_blank [of x]
  by simp

lemma toString_small:
  "toString 1 = ''1''" "toString 100 = ''100''" "toString 0 = ''0''" "toString 101 = ''101''"
  "toString 12 = ''12''"
  by (simp_all add: toString_def digits.simps digit_char_def)

theorem capacity_validation_witness:
  "capacity_error (Some ''1'') = None \<and> capacity_error (Some ''100'') = None
   \<and> capacity_error (Some ''0'') = Some ''Capacity must be between 1 and 100''
   \<and> capacity_error (Some ''101'') = Some ''Capacity must be between 1 and 100''
   \<and> capacity_error (Some ''abc'') = Some ''Capacity must be between 1 and 100''
   \<and> capacity_error (Some []) = Some ''Capacity is required''
   \<and> capacity_error (Some ''12 seats'') = None"
proof -
  have b: "blank (Some [])" by (simp add: blank_def trim_def)
  have a: "\<not> is_ws CHR ''a'' \<and> \<not> is_digit CHR ''a'' \<and> CHR ''a'' \<noteq> CHR ''+'' \<and> CHR ''a'' \<noteq> CHR ''-''"
    by (simp add: is_ws_def is_digit_def)
  have s: "\<not> is_digit (hd '' seats'')" by (simp add: is_digit_def)
  show ?thesis
    using capacity_validation [where rest = "[]" and n = 1 and x = "Some []"
            and c = "CHR ''a''" and cs = "''bc''"]
      capacity_validation [where rest = "[]" and n = 100]
      capacity_validation [where rest = "[]" and n = 0]
      capacity_validation [where rest = "[]" and n = 101]
      capacity_validation [where rest = "'' seats''" and n = 12]
      a b s
    by (simp add: toString_small)
qed

text \<open>
  Claim C9 as stated fails: the non-numeric string \<open>12abc\<close> is accepted with no capacity
  error.
\<close>

theorem capacity_accepts_trailing_text:
  "errors (validateVehicleForm [''capacity'' \<mapsto> ''12abc'']) ''capacity'' = None"
  by (simp add: vehicle_capacity_entry capacity_error_def trim_def parseInt10_def is_ws_def
        is_digit_def digits_value_def digit_val_def)

lemma phone_error_verdict: "phone_error phone mr mf = phone_verdict phone mr mf"
  by (simp add: phone_error_def phone_verdict_def PHONE_PATTERN_language split: option.splits)

text \<open>
  Claim C8, amended. For the ticket phone field and the parcel sender and receiver phone
  fields the error is decided by the trimmed input: a missing field or one that is empty
  once trimmed gets the required message and never the format message; a trimmed value
  matching the pattern gets no error; any other gets the format message.
\<close>

theorem phone_validation:
  "errors (validateTicketForm bad_float formData) ''phoneNumber'' =
     phone_verdict (formData ''phoneNumber'')
       ''Phone number is required'' ''Invalid phone number format''
   \<and> errors (validateParcelForm bad_float formData) ''senderPhone'' =
     phone_verdict (formData ''senderPhone'')
       ''Sender phone is required'' ''Invalid sender phone format''
   \<and> errors (validateParcelForm bad_float formData) ''receiverPhone'' =
     phone_verdict (formData ''receiverPhone'')
       ''Receiver phone is required'' ''Invalid receiver phone format''"
  by (simp only: ticket_phone_entry parcel_sender_entry parcel_receiver_entry
        phone_error_verdict)

lemma trim_example: "trim '' 0712345678'' = ''0712345678''"
  by (simp add: trim_def is_ws_def)

lemma example_in_language: "''0712345678'' \<in> phone_language"
  by (simp add: PHONE_PATTERN_language [symmetric] PHONE_PATTERN_test_def is_digit_def)

lemma spaced_not_in_language: "'' 0712345678'' \<notin> phone_language"
  by (simp add: PHONE_PATTERN_language [symmetric] PHONE_PATTERN_test_def)

theorem phone_validation_witness:
  "errors (validateTicketForm (\<lambda>s. False) [''phoneNumber'' \<mapsto> ''0712345678'']) ''phoneNumber'' = None
   \<and> errors (validateParcelForm (\<lambda>s. False) [''senderPhone'' \<mapsto> ''12345'']) ''senderPhone''
       = Some ''Invalid sender phone format''
   \<and> errors (validateParcelForm (\<lambda>s. False) [''senderPhone'' \<mapsto> ''12345'']) ''receiverPhone''
       = Some ''Receiver phone is required''"
proof -
  have t: "trim ''0712345678'' = ''0712345678''" "trim ''12345'' = ''12345''"
    by (simp_all add: trim_def is_ws_def)
  have n: "''12345'' \<notin> phone_language"
    by (simp add: PHONE_PATTERN_language [symmetric] PHONE_PATTERN_test_def)
  show ?thesis
    using phone_validation [of "\<lambda>s. False" "[''phoneNumber'' \<mapsto> ''0712345678'']"]
      phone_validation [of "\<lambda>s. False" "[''senderPhone'' \<mapsto> ''12345'']"]
    by (simp add: phone_verdict_def t n example_in_language)
qed

text \<open>
  Claim C8 as stated fails: a phone number with a leading space does not match the pattern
  and is not empty, yet validation reports no phone error.
\<close>

theorem phone_accepts_untrimmed:
  "errors (validateTicketForm (\<lambda>s. False) [''phoneNumber'' \<mapsto> '' 0712345678'']) ''phoneNumber''
     = None
   \<and> '' 0712345678'' \<notin> phone_language"
  by (simp add: ticket_phone_entry phone_error_verdict phone_verdict_def trim_example
        example_in_language spaced_not_in_language)

end
